theory Spec2Isabelle
  imports
    Main
    "HOL-Library.Word"
    "HOL-Library.AList"
    "HOL-Library.Char_ord"
    "HOL-Library.List_Lexorder"
    "HOL-Library.Product_Lexorder"
    "HOL-Library.Multiset"
begin

section \<open>Values, identifiers and documents\<close>

text \<open>
  The gaming API of \<^verbatim>\<open>main.py\<close> is a set of FastAPI route handlers over a pymongo
  database handle \<^verbatim>\<open>db\<close>. A handler is modelled as a function of the handle (absent
  when the process did not connect), of its already decoded parameters, and of the
  identifiers the driver generates for the inserts the handler performs. A handler that
  writes returns the handle's new contents next to its outcome.

  An exception is a value: \<open>HTTPException\<close> carries the status code and the detail of the
  source's \<^verbatim>\<open>raise HTTPException(...)\<close>; the others are Python exceptions that no
  handler catches.
\<close>

datatype exn =
    HTTPException nat string
  | ValueError string
  | InvalidId string

text \<open>
  A bson \<^verbatim>\<open>ObjectId\<close> is twelve bytes, here a 96-bit word: these are the identifiers
  the driver generates. The constructor \<^verbatim>\<open>ObjectId(s)\<close> also accepts a 24-character
  string with white space in it and then holds fewer than twelve bytes; such an identifier
  is a \<open>VOidShort\<close> of its bytes (numbers below 256). Field values are the ones the
  handlers store and read: \<^verbatim>\<open>None\<close>, integers, strings and identifiers. A
  document is a Python \<^verbatim>\<open>dict\<close>: an association list with distinct keys in insertion
  order. A Python \<^verbatim>\<open>str\<close> is a \<open>string\<close>, one \<open>char\<close> for each character.
\<close>

type_synonym objectid = "96 word"

datatype pyvalue = VNone | VInt int | VStr string | VOid objectid | VOidShort "nat list"

type_synonym doc = "(string \<times> pyvalue) list"

text \<open>\<^verbatim>\<open>doc.get(k)\<close>: the value under \<open>k\<close>, \<^verbatim>\<open>None\<close> when the key is absent.\<close>

definition dict_get :: "doc \<Rightarrow> string \<Rightarrow> pyvalue" where
  "dict_get d k = (case map_of d k of None \<Rightarrow> VNone | Some v \<Rightarrow> v)"

subsection \<open>Hexadecimal rendering and parsing of identifiers\<close>

definition hex_digit :: "nat \<Rightarrow> char" where
  "hex_digit n = ''0123456789abcdef'' ! (n mod 16)"

definition hex_val :: "char \<Rightarrow> nat option" where
  "hex_val c =
     map_of
       [(CHR ''0'', 0), (CHR ''1'', 1), (CHR ''2'', 2), (CHR ''3'', 3), (CHR ''4'', 4),
        (CHR ''5'', 5), (CHR ''6'', 6), (CHR ''7'', 7), (CHR ''8'', 8), (CHR ''9'', 9),
        (CHR ''a'', 10), (CHR ''b'', 11), (CHR ''c'', 12), (CHR ''d'', 13), (CHR ''e'', 14),
        (CHR ''f'', 15),
        (CHR ''A'', 10), (CHR ''B'', 11), (CHR ''C'', 12), (CHR ''D'', 13), (CHR ''E'', 14),
        (CHR ''F'', 15)] c"

text \<open>\<open>hex_of k n\<close>: the \<open>k\<close> low hexadecimal digits of \<open>n\<close>, most significant first.\<close>

fun hex_of :: "nat \<Rightarrow> nat \<Rightarrow> string" where
  "hex_of 0 n = []"
| "hex_of (Suc k) n = hex_of k (n div 16) @ [hex_digit n]"

text \<open>The ASCII white space that \<^verbatim>\<open>bytes.fromhex\<close> skips: tab to carriage return, and space.\<close>

definition Py_ISSPACE :: "char \<Rightarrow> bool" where
  "Py_ISSPACE c = (c \<in> set [CHR 0x09, CHR 0x0A, CHR 0x0B, CHR 0x0C, CHR 0x0D, CHR 0x20])"

text \<open>
  \<^verbatim>\<open>bytes.fromhex(s)\<close>: white space is skipped before each byte, a byte is two
  hexadecimal digits next to each other, and \<open>None\<close> stands for the \<^verbatim>\<open>ValueError\<close>
  raised at any other character and at a digit with no second digit.
\<close>

fun fromhex :: "string \<Rightarrow> nat list option" where
  "fromhex [] = Some []"
| "fromhex [c] = (if Py_ISSPACE c then Some [] else None)"
| "fromhex (c # c' # cs) =
     (if Py_ISSPACE c then fromhex (c' # cs)
      else
        (case hex_val c of
           None \<Rightarrow> None
         | Some hi \<Rightarrow>
             (case hex_val c' of
                None \<Rightarrow> None
              | Some lo \<Rightarrow> map_option ((#) (16 * hi + lo)) (fromhex cs))))"

text \<open>The number that a sequence of bytes is, most significant byte first.\<close>

definition nat_of_bytes :: "nat list \<Rightarrow> nat" where
  "nat_of_bytes bs = foldl (\<lambda>acc b. 256 * acc + b) 0 bs"

text \<open>
  bson's \<^verbatim>\<open>ObjectId(s)\<close> for a string: a string of 24 characters that
  \<^verbatim>\<open>bytes.fromhex\<close> accepts gives the identifier of the bytes read, any other string
  raises \<^verbatim>\<open>InvalidId\<close>. The bytes are twelve when the 24 characters are all digits and
  fewer when there is white space among them. \<^verbatim>\<open>ObjectId.is_valid(s)\<close> is false for
  an empty argument and otherwise tries the constructor.
\<close>

definition ObjectId :: "string \<Rightarrow> exn + pyvalue" where
  "ObjectId s =
     (if length s = 24 then
        (case fromhex s of
           None \<Rightarrow> Inl (InvalidId s)
         | Some bs \<Rightarrow>
             Inr (if length bs = 12 then VOid (word_of_nat (nat_of_bytes bs))
                  else VOidShort bs))
      else Inl (InvalidId s))"

definition ObjectId_is_valid :: "string \<Rightarrow> bool" where
  "ObjectId_is_valid s =
     (if s = [] then False else (case ObjectId s of Inl e \<Rightarrow> False | Inr oid \<Rightarrow> True))"

subsection \<open>Python's \<^verbatim>\<open>str\<close>\<close>

fun str_nat :: "nat \<Rightarrow> string" where
  "str_nat n =
     (if n < 10 then [''0123456789'' ! n]
      else str_nat (n div 10) @ [''0123456789'' ! (n mod 10)])"

declare str_nat.simps [simp del]

definition str_int :: "int \<Rightarrow> string" where
  "str_int i = (if i < 0 then CHR ''-'' # str_nat (nat (- i)) else str_nat (nat i))"

fun py_str :: "pyvalue \<Rightarrow> string" where
  "py_str VNone = ''None''"
| "py_str (VInt i) = str_int i"
| "py_str (VStr s) = s"
| "py_str (VOid oid) = hex_of 24 (unat oid)"
| "py_str (VOidShort bs) = concat (map (hex_of 2) bs)"

section \<open>Helpers of \<^verbatim>\<open>main.py\<close>\<close>

text \<open>
  \<^verbatim>\<open>PyObjectId.validate(v)\<close>: an identifier passes, a string that is not a valid
  identifier raises \<^verbatim>\<open>ValueError("Invalid ObjectId")\<close>. For \<^verbatim>\<open>None\<close>
  and for an integer \<^verbatim>\<open>ObjectId.is_valid\<close> is false.
\<close>

fun PyObjectId_validate :: "pyvalue \<Rightarrow> exn + pyvalue" where
  "PyObjectId_validate (VOid oid) = Inr (VOid oid)"
| "PyObjectId_validate (VOidShort bs) = Inr (VOidShort bs)"
| "PyObjectId_validate (VStr s) =
     (if \<not> ObjectId_is_valid s then Inl (ValueError ''Invalid ObjectId'') else ObjectId s)"
| "PyObjectId_validate v = Inl (ValueError ''Invalid ObjectId'')"

text \<open>
  \<^verbatim>\<open>serialize_doc(doc)\<close>: \<^verbatim>\<open>None\<close> and the empty dict are falsy and returned as
  they are; otherwise \<^verbatim>\<open>doc["_id"] = str(doc.get("_id"))\<close>, which overwrites the value
  of an existing key in place and appends a missing key.
\<close>

definition serialize_doc :: "doc option \<Rightarrow> doc option" where
  "serialize_doc doc =
     (case doc of
        None \<Rightarrow> None
      | Some d \<Rightarrow>
          if d = [] then Some d
          else Some (AList.update ''_id'' (VStr (py_str (dict_get d ''_id''))) d))"

section \<open>The document store\<close>

text \<open>
  The pymongo handle \<^verbatim>\<open>db\<close>: \<^verbatim>\<open>db[name]\<close> is a collection, a list of documents
  in insertion order (a name never written to is an empty collection). The module-level
  \<^verbatim>\<open>db\<close> is \<^verbatim>\<open>None\<close> when the process has no connection: a
  \<open>database option\<close>.
\<close>

type_synonym database = "string \<Rightarrow> doc list"

text \<open>
  A query filter \<^verbatim>\<open>{k: v, ...}\<close> matches a document whose field \<open>k\<close> equals
  \<open>v\<close> for every pair; as in MongoDB, a missing field compares as null.
\<close>

definition matches :: "doc \<Rightarrow> doc \<Rightarrow> bool" where
  "matches filt d = list_all (\<lambda>kv. dict_get d (fst kv) = snd kv) filt"

definition find_cursor :: "doc list \<Rightarrow> doc \<Rightarrow> doc list" where
  "find_cursor coll filt = filter (matches filt) coll"

definition find_one :: "doc list \<Rightarrow> doc \<Rightarrow> doc option" where
  "find_one coll filt = List.find (matches filt) coll"

definition count_documents :: "doc list \<Rightarrow> doc \<Rightarrow> nat" where
  "count_documents coll filt = length (find_cursor coll filt)"

text \<open>
  \<^verbatim>\<open>cursor.sort(key, direction)\<close> orders by the BSON comparison of the field: null
  (and missing) before numbers before strings before identifiers, and identifiers by their
  bytes. Direction \<open>-1\<close> is descending.
\<close>

fun bson_key :: "pyvalue \<Rightarrow> nat \<times> int \<times> string" where
  "bson_key VNone = (0, 0, [])"
| "bson_key (VInt i) = (1, i, [])"
| "bson_key (VStr s) = (2, 0, s)"
| "bson_key (VOid oid) = (3, uint oid, [])"
| "bson_key (VOidShort bs) = (3, int (nat_of_bytes bs), [])"

definition sort_cursor :: "string \<Rightarrow> int \<Rightarrow> doc list \<Rightarrow> doc list" where
  "sort_cursor key direction cur =
     (if direction = - 1 then rev (sort_key (\<lambda>d. bson_key (dict_get d key)) cur)
      else sort_key (\<lambda>d. bson_key (dict_get d key)) cur)"

text \<open>
  \<^verbatim>\<open>cursor.limit(n)\<close>: pymongo documents that a limit of 0 is equivalent to no limit;
  a negative limit is sent as its absolute value.
\<close>

definition limit_cursor :: "int \<Rightarrow> doc list \<Rightarrow> doc list" where
  "limit_cursor n cur = (if n = 0 then cur else take (nat \<bar>n\<bar>) cur)"

text \<open>
  Modelled from the spec: \<^verbatim>\<open>create_document\<close> of \<^verbatim>\<open>database.py\<close>, which is not
  among the sources. The spec has the store client insert the given document into the
  named collection under a store-generated identifier, and the create endpoints return
  that identifier as a string. \<open>new_id\<close> is the identifier generated for this insert.
\<close>

definition create_document ::
  "string \<Rightarrow> doc \<Rightarrow> objectid \<Rightarrow> database \<Rightarrow> string \<times> database" where
  "create_document collection_name data new_id db =
     (py_str (VOid new_id),
      db(collection_name :=
           db collection_name @ [(''_id'', VOid new_id) # AList.delete ''_id'' data]))"

text \<open>
  Modelled from the spec: \<^verbatim>\<open>get_documents\<close> of \<^verbatim>\<open>database.py\<close>, which is not
  among the sources. The spec has the store client find the documents of the named
  collection that match the filter.
\<close>

definition get_documents :: "string \<Rightarrow> doc \<Rightarrow> database \<Rightarrow> doc list" where
  "get_documents collection_name filt db = find_cursor (db collection_name) filt"

section \<open>Request models\<close>

text \<open>
  \<^verbatim>\<open>Game\<close> of \<^verbatim>\<open>schemas.py\<close> and the two request models of \<^verbatim>\<open>main.py\<close>, with
  their fields in the source's order:
  \<^verbatim>\<open>Game(title, description, category, thumbnail, plays)\<close>,
  \<^verbatim>\<open>CreateUserRequest(username, avatar_url)\<close>,
  \<^verbatim>\<open>SubmitScoreRequest(user_id, username, score)\<close>.
  \<^verbatim>\<open>CreateUserRequest\<close> declares a plain \<^verbatim>\<open>str\<close> and an optional \<^verbatim>\<open>str\<close>:
  every value of the type is a body FastAPI accepts.
\<close>

datatype category = Puzzle | Adventure | Action | Kids_Learning

datatype Game = Game string string category "string option" int

datatype CreateUserRequest = CreateUserRequest string "string option"

datatype SubmitScoreRequest = SubmitScoreRequest string string int

fun category_str :: "category \<Rightarrow> string" where
  "category_str Puzzle = ''Puzzle''"
| "category_str Adventure = ''Adventure''"
| "category_str Action = ''Action''"
| "category_str Kids_Learning = ''Kids Learning''"

definition opt_str :: "string option \<Rightarrow> pyvalue" where
  "opt_str x = (case x of None \<Rightarrow> VNone | Some s \<Rightarrow> VStr s)"

fun Game_model_dump :: "Game \<Rightarrow> doc" where
  "Game_model_dump (Game title description category thumbnail plays) =
     [(''title'', VStr title), (''description'', VStr description),
      (''category'', VStr (category_str category)), (''thumbnail'', opt_str thumbnail),
      (''plays'', VInt plays)]"

fun CreateUserRequest_model_dump :: "CreateUserRequest \<Rightarrow> doc" where
  "CreateUserRequest_model_dump (CreateUserRequest username avatar_url) =
     [(''username'', VStr username), (''avatar_url'', opt_str avatar_url)]"

text \<open>
  The constraint \<^verbatim>\<open>User\<close> of \<^verbatim>\<open>schemas.py\<close> puts on a username:
  \<^verbatim>\<open>Field(..., min_length=2, max_length=30)\<close>.
\<close>

definition User_username_ok :: "string \<Rightarrow> bool" where
  "User_username_ok username = (2 \<le> length username \<and> length username \<le> 30)"

section \<open>Routes\<close>

text \<open>
  What FastAPI answers for a handler's outcome: the status code of a raised
  \<^verbatim>\<open>HTTPException\<close>, 500 for any other exception that leaves the handler, 200 for a
  returned value.
\<close>

fun status_code :: "exn + 'a \<Rightarrow> nat" where
  "status_code (Inl (HTTPException code detail)) = code"
| "status_code (Inl e) = 500"
| "status_code (Inr r) = 200"

definition not_configured :: exn where
  "not_configured = HTTPException 500 ''Database not configured''"

text \<open>Python truthiness of an optional dict: \<^verbatim>\<open>None\<close> and \<^verbatim>\<open>{}\<close> are falsy.\<close>

definition truthy :: "doc option \<Rightarrow> bool" where
  "truthy x = (case x of None \<Rightarrow> False | Some d \<Rightarrow> d \<noteq> [])"

text \<open>\<^verbatim>\<open>GET /api/games\<close>\<close>

definition list_games :: "database option \<Rightarrow> string option \<Rightarrow> exn + doc option list" where
  "list_games db category =
     (case db of
        None \<Rightarrow> Inl not_configured
      | Some d \<Rightarrow>
          let filt = (case category of
                        None \<Rightarrow> []
                      | Some c \<Rightarrow> if c = [] then [] else [(''category'', VStr c)]);
              docs = get_documents ''game'' filt d
          in Inr (map (\<lambda>x. serialize_doc (Some x)) docs))"

text \<open>\<^verbatim>\<open>POST /api/games\<close>\<close>

definition create_game ::
  "database option \<Rightarrow> Game \<Rightarrow> objectid \<Rightarrow> (exn + doc) \<times> database option" where
  "create_game db game new_id =
     (case db of
        None \<Rightarrow> (Inl not_configured, None)
      | Some d \<Rightarrow>
          let (inserted_id, d') = create_document ''game'' (Game_model_dump game) new_id d
          in (Inr [(''_id'', VStr inserted_id)], Some d'))"

text \<open>\<^verbatim>\<open>POST /api/users\<close>\<close>

fun create_user ::
  "database option \<Rightarrow> CreateUserRequest \<Rightarrow> objectid \<Rightarrow> (exn + doc option) \<times> database option"
  where
  "create_user None payload new_id = (Inl not_configured, None)"
| "create_user (Some d) (CreateUserRequest username avatar_url) new_id =
     (let existing = find_one (d ''user'') [(''username'', VStr username)] in
      if truthy existing then (Inr (serialize_doc existing), Some d)
      else
        let (inserted_id, d') =
              create_document ''user''
                (CreateUserRequest_model_dump (CreateUserRequest username avatar_url)) new_id d
        in (case ObjectId inserted_id of
              Inl e \<Rightarrow> (Inl e, Some d')
            | Inr oid \<Rightarrow>
                (Inr (serialize_doc (find_one (d' ''user'') [(''_id'', oid)])), Some d')))"

text \<open>\<^verbatim>\<open>GET /api/users/{user_id}\<close>\<close>

definition get_user :: "database option \<Rightarrow> string \<Rightarrow> exn + doc option" where
  "get_user db user_id =
     (case db of
        None \<Rightarrow> Inl not_configured
      | Some d \<Rightarrow>
          (case PyObjectId_validate (VStr user_id) of
             Inl e \<Rightarrow> Inl e
           | Inr oid \<Rightarrow>
               let user = find_one (d ''user'') [(''_id'', oid)] in
               if \<not> truthy user then Inl (HTTPException 404 ''User not found'')
               else Inr (serialize_doc user)))"

text \<open>\<^verbatim>\<open>GET /api/leaderboard/{game_id}\<close>\<close>

definition get_leaderboard ::
  "database option \<Rightarrow> string \<Rightarrow> int \<Rightarrow> exn + doc option list" where
  "get_leaderboard db game_id limit =
     (case db of
        None \<Rightarrow> Inl not_configured
      | Some d \<Rightarrow>
          let entries =
                limit_cursor limit
                  (sort_cursor ''score'' (- 1)
                     (find_cursor (d ''leaderboardentry'') [(''game_id'', VStr game_id)]))
          in Inr (map (\<lambda>e. serialize_doc (Some e)) entries))"

text \<open>\<^verbatim>\<open>POST /api/leaderboard/{game_id}\<close>\<close>

fun submit_score ::
  "database option \<Rightarrow> string \<Rightarrow> SubmitScoreRequest \<Rightarrow> objectid \<Rightarrow>
   (exn + doc) \<times> database option" where
  "submit_score None game_id payload new_id = (Inl not_configured, None)"
| "submit_score (Some d) game_id (SubmitScoreRequest user_id username score) new_id =
     (if score < 0 then (Inl (HTTPException 400 ''Score must be non-negative''), Some d)
      else
        let data = [(''game_id'', VStr game_id), (''user_id'', VStr user_id),
                    (''username'', VStr username), (''score'', VInt score)];
            (inserted_id, d') = create_document ''leaderboardentry'' data new_id d
        in (Inr [(''_id'', VStr inserted_id)], Some d'))"

text \<open>
  \<^verbatim>\<open>GET /test\<close>. The response is a dict with fixed keys, here a record. The two
  environment variables and the outcome of \<^verbatim>\<open>db.list_collection_names()\<close> are inputs:
  \<open>Inl msg\<close> is an exception \<open>e\<close> with \<^verbatim>\<open>str(e)\<close> equal to \<open>msg\<close>, \<open>Inr names\<close> the
  returned list. The symbols of the source's literals are written as their UTF-8 bytes.
  Nothing else inside the outer \<^verbatim>\<open>try\<close> raises, so its handler is never entered.
\<close>

record test_response =
  backend :: string
  database :: string
  database_url :: "string option"
  database_name :: "string option"
  connection_status :: string
  collections :: "string list"

definition check_mark :: string where
  "check_mark = [CHR 0xE2, CHR 0x9C, CHR 0x85]"

definition cross_mark :: string where
  "cross_mark = [CHR 0xE2, CHR 0x9D, CHR 0x8C]"

definition warning_sign :: string where
  "warning_sign = [CHR 0xE2, CHR 0x9A, CHR 0xA0, CHR 0xEF, CHR 0xB8, CHR 0x8F]"

definition test_database ::
  "database option \<Rightarrow> string option \<Rightarrow> string option \<Rightarrow> string + string list \<Rightarrow>
   exn + test_response" where
  "test_database db env_url env_name listing =
     (let response = \<lparr>backend = check_mark @ '' Running'',
                       database = cross_mark @ '' Not Available'',
                       database_url = None,
                       database_name = None,
                       connection_status = ''Not Connected'',
                       collections = []\<rparr>
      in case db of
           Some d \<Rightarrow>
             let response = response\<lparr>database := check_mark @ '' Available''\<rparr>;
                 response = response\<lparr>database_url :=
                   Some (if env_url \<noteq> None \<and> env_url \<noteq> Some []
                         then check_mark @ '' Set'' else cross_mark @ '' Not Set'')\<rparr>;
                 response = response\<lparr>database_name :=
                   Some (case env_name of
                           None \<Rightarrow> cross_mark @ '' Not Set''
                         | Some n \<Rightarrow> if n = [] then cross_mark @ '' Not Set'' else n)\<rparr>;
                 response = response\<lparr>connection_status := ''Connected''\<rparr>
             in (case listing of
                   Inr names \<Rightarrow>
                     Inr (response\<lparr>collections := take 10 names,
                                    database := check_mark @ '' Connected & Working''\<rparr>)
                 | Inl msg \<Rightarrow>
                     Inr (response\<lparr>database :=
                            warning_sign @ ''  Connected but Error: '' @ take 50 msg\<rparr>))
         | None \<Rightarrow>
             Inr (response\<lparr>database := warning_sign @ ''  Available but not initialized''\<rparr>))"

text \<open>\<^verbatim>\<open>POST /api/seed\<close>\<close>

definition samples :: "doc list" where
  "samples =
     [[(''title'', VStr ''Neon Blocks''),
       (''description'', VStr ''Stack and align glowing blocks in this chill puzzle.''),
       (''category'', VStr ''Puzzle''), (''thumbnail'', VNone), (''plays'', VInt 0)],
      [(''title'', VStr ''Cyber Runner''),
       (''description'', VStr ''Dash through a synth city, dodge obstacles, collect cores.''),
       (''category'', VStr ''Adventure''), (''thumbnail'', VNone), (''plays'', VInt 0)],
      [(''title'', VStr ''Pulse Shooter''),
       (''description'', VStr ''Arcade action with rhythmic enemy waves and power-ups.''),
       (''category'', VStr ''Action''), (''thumbnail'', VNone), (''plays'', VInt 0)],
      [(''title'', VStr ''ABC Quest''),
       (''description'', VStr ''Learn letters and sounds with friendly characters.''),
       (''category'', VStr ''Kids Learning''), (''thumbnail'', VNone), (''plays'', VInt 0)]]"

text \<open>
  The loop \<^verbatim>\<open>for s in samples: ids.append(create_document("game", s))\<close>; \<open>new_ids i\<close>
  is the identifier generated for the insert number \<open>i\<close> of the request.
\<close>

fun seed_loop ::
  "doc list \<Rightarrow> (nat \<Rightarrow> objectid) \<Rightarrow> nat \<Rightarrow> string list \<Rightarrow> database \<Rightarrow>
   string list \<times> database" where
  "seed_loop [] new_ids i ids d = (ids, d)"
| "seed_loop (s # rest) new_ids i ids d =
     (let (inserted_id, d') = create_document ''game'' s (new_ids i) d
      in seed_loop rest new_ids (Suc i) (ids @ [inserted_id]) d')"

datatype seed_response = Message doc | Inserted "string list"

definition seed_games ::
  "database option \<Rightarrow> (nat \<Rightarrow> objectid) \<Rightarrow> (exn + seed_response) \<times> database option" where
  "seed_games db new_ids =
     (case db of
        None \<Rightarrow> (Inl not_configured, None)
      | Some d \<Rightarrow>
          if count_documents (d ''game'') [] > 0
          then (Inr (Message [(''status'', VStr ''ok''),
                              (''message'', VStr ''Games already seeded'')]), Some d)
          else
            let (ids, d') = seed_loop samples new_ids 0 [] d
            in (Inr (Inserted ids), Some d'))"

section \<open>Example stores\<close>

text \<open>A leaderboard with two entries of game \<open>g1\<close> and one of game \<open>g2\<close>.\<close>

definition board :: database where
  "board = (\<lambda>c. [])(''leaderboardentry'' :=
     [[(''_id'', VOid 1), (''game_id'', VStr ''g1''), (''user_id'', VStr ''u1''),
       (''username'', VStr ''Ann''), (''score'', VInt 7)],
      [(''_id'', VOid 2), (''game_id'', VStr ''g2''), (''user_id'', VStr ''u1''),
       (''username'', VStr ''Ann''), (''score'', VInt 99)],
      [(''_id'', VOid 3), (''game_id'', VStr ''g1''), (''user_id'', VStr ''u2''),
       (''username'', VStr ''Bob''), (''score'', VInt 42)]])"

text \<open>A store whose only document is the user \<open>Ann\<close>.\<close>

definition ann_store :: database where
  "ann_store = (\<lambda>c. [])(''user'' :=
     [[(''_id'', VOid 1), (''username'', VStr ''Ann''), (''avatar_url'', VNone)]])"

section \<open>Identifiers: rendering and parsing\<close>

lemma hex_of_numeral:
  "hex_of (numeral k) n = hex_of (pred_numeral k) (n div 16) @ [hex_digit n]"
  using hex_of.simps(2) [of "pred_numeral k" n] by (simp only: numeral_eq_Suc [of k, symmetric])

lemma hex_val_hex_digit: "hex_val (hex_digit n) = Some (n mod 16)"
proof -
  have "n mod 16 < 16" by simp
  then have "n mod 16 \<in> {0,1,2,3,4,5,6,7,8,9,10,11,12,13,14,15}" by simp arith
  then show ?thesis
    unfolding hex_digit_def hex_val_def by (elim insertE) simp_all
qed

lemma length_hex_of: "length (hex_of k n) = k"
  by (induction k arbitrary: n) simp_all

lemma hex_val_not_space: "hex_val c = Some v \<Longrightarrow> \<not> Py_ISSPACE c"
  by (auto simp: hex_val_def Py_ISSPACE_def split: if_splits)

lemma fromhex_append_byte:
  "fromhex xs = Some bs \<Longrightarrow> hex_val a = Some hi \<Longrightarrow> hex_val b = Some lo \<Longrightarrow>
   fromhex (xs @ [a, b]) = Some (bs @ [16 * hi + lo])"
proof (induction xs arbitrary: bs rule: fromhex.induct)
  case 1
  then show ?case
    by (simp add: hex_val_not_space)
next
  case (2 c)
  then show ?case
    by (simp add: hex_val_not_space split: if_splits)
next
  case (3 c c' cs)
  then show ?case
    by (auto split: if_splits option.splits)
qed

lemma hex_of_byte:
  "hex_of (Suc (Suc k)) n = hex_of k (n div 256) @ [hex_digit (n div 16), hex_digit n]"
proof -
  have "n div 16 div 16 = n div 256"
    using div_mult2_eq [of n 16 16] by simp
  then show ?thesis
    by simp
qed

text \<open>
  An even number of digits of a number is read back as its bytes: half as many, and
  together the number again, up to the size of that many bytes.
\<close>

lemma fromhex_hex_of:
  "\<exists>bs. fromhex (hex_of (2 * k) n) = Some bs \<and> length bs = k \<and>
         nat_of_bytes bs = n mod 256 ^ k"
proof (induction k arbitrary: n)
  case 0
  show ?case by (simp add: nat_of_bytes_def)
next
  case (Suc k)
  from Suc.IH [of "n div 256"] obtain bs where
    bs: "fromhex (hex_of (2 * k) (n div 256)) = Some bs" "length bs = k"
      "nat_of_bytes bs = n div 256 mod 256 ^ k"
    by blast
  have byte: "16 * (n div 16 mod 16) + n mod 16 = n mod 256"
    using mod_mult2_eq [of n 16 16] by simp
  have split: "n mod (256 * 256 ^ k) = 256 * (n div 256 mod 256 ^ k) + n mod 256"
    by (rule mod_mult2_eq)
  have "fromhex (hex_of (2 * Suc k) n) = Some (bs @ [n mod 256])"
    using fromhex_append_byte [OF bs(1) hex_val_hex_digit hex_val_hex_digit, of "n div 16" n]
    by (simp add: hex_of_byte byte del: hex_of.simps)
  moreover have "nat_of_bytes (bs @ [n mod 256]) = n mod 256 ^ Suc k"
    using bs(3) split by (simp add: nat_of_bytes_def)
  ultimately show ?case
    using bs(2) by simp
qed

text \<open>Parsing the rendering of an identifier gives the identifier back.\<close>

lemma ObjectId_py_str: "ObjectId (py_str (VOid oid)) = Inr (VOid oid)"
proof -
  have "unat oid < 2 ^ 96"
    using unsigned_less [of oid, where 'a = nat] by simp
  then have m: "unat oid mod 256 ^ 12 = unat oid"
    by simp
  from fromhex_hex_of [of 12 "unat oid"] obtain bs where
    bs: "fromhex (hex_of 24 (unat oid)) = Some bs" "length bs = 12"
      "nat_of_bytes bs = unat oid mod 256 ^ 12"
    by auto
  then show ?thesis
    using m by (simp add: ObjectId_def length_hex_of del: hex_of.simps)
qed

section \<open>Documents, queries and cursors\<close>

lemma map_of_update_id:
  "map_of (AList.update k v d) k = Some v"
  by (simp add: update_conv')

lemma map_of_update_other:
  "k' \<noteq> k \<Longrightarrow> map_of (AList.update k v d) k' = map_of d k'"
  by (simp add: update_conv')

lemma keys_update:
  "fst ` set (AList.update k v d) = insert k (fst ` set d)"
  by (simp add: update_conv' flip: dom_map_of_conv_image_fst)

lemma dict_get_nonempty: "dict_get e k = VStr s \<Longrightarrow> e \<noteq> []"
  by (auto simp: dict_get_def)

lemma dict_get_update_other:
  "k \<noteq> k' \<Longrightarrow> dict_get (AList.update k' v e) k = dict_get e k"
  by (simp add: dict_get_def update_conv')

lemma serialize_doc_nonempty:
  "e \<noteq> [] \<Longrightarrow>
   serialize_doc (Some e) = Some (AList.update ''_id'' (VStr (py_str (dict_get e ''_id''))) e)"
  by (simp add: serialize_doc_def)

lemma serialize_doc_id:
  "e \<noteq> [] \<Longrightarrow>
   \<exists>doc. serialize_doc (Some e) = Some doc \<and>
         map_of doc ''_id'' = Some (VStr (py_str (dict_get e ''_id'')))"
  by (simp add: serialize_doc_nonempty update_conv')

lemma matches_single: "matches [(k, v)] e = (dict_get e k = v)"
  by (simp add: matches_def)

lemma find_append:
  "List.find P (xs @ ys) = (case List.find P xs of None \<Rightarrow> List.find P ys | Some x \<Rightarrow> Some x)"
  by (induction xs) simp_all

lemma find_one_username_nonempty:
  "find_one coll [(''username'', VStr u)] = Some e \<Longrightarrow>
   e \<noteq> [] \<and> dict_get e ''username'' = VStr u"
  by (auto simp: find_one_def find_Some_iff matches_single dict_get_def)

lemma find_one_id_nonempty:
  "find_one coll [(''_id'', VOid oid)] = Some e \<Longrightarrow> e \<noteq> [] \<and> dict_get e ''_id'' = VOid oid"
  by (auto simp: find_one_def find_Some_iff matches_single dict_get_def)

text \<open>On integer scores the BSON order is the order of the integers.\<close>

lemma bson_key_int: "(bson_key (VInt a) \<le> bson_key (VInt b)) = (a \<le> b)"
  by (auto simp: less_eq_prod_def)

lemma sort_cursor_desc:
  "sorted_wrt (\<lambda>a b. bson_key (dict_get b key) \<le> bson_key (dict_get a key))
     (sort_cursor key (- 1) cur)"
proof -
  have "sorted (map (\<lambda>d. bson_key (dict_get d key))
                  (sort_key (\<lambda>d. bson_key (dict_get d key)) cur))"
    by (rule sorted_sort_key)
  then have "sorted_wrt (\<lambda>a b. bson_key (dict_get a key) \<le> bson_key (dict_get b key))
               (sort_key (\<lambda>d. bson_key (dict_get d key)) cur)"
    by (simp add: sorted_map)
  then show ?thesis
    by (simp add: sort_cursor_def sorted_wrt_rev)
qed

lemma set_sort_cursor: "set (sort_cursor key direction cur) = set cur"
  by (simp add: sort_cursor_def)

lemma length_sort_cursor: "length (sort_cursor key direction cur) = length cur"
  by (simp add: sort_cursor_def)

lemma set_limit_cursor: "set (limit_cursor n cur) \<subseteq> set cur"
  by (auto simp: limit_cursor_def dest: in_set_takeD)

lemma sorted_wrt_limit_cursor: "sorted_wrt P cur \<Longrightarrow> sorted_wrt P (limit_cursor n cur)"
  by (simp add: limit_cursor_def sorted_wrt_take)

text \<open>
  A cursor's sort and limit neither invent nor duplicate documents, and what a limit leaves
  out of a sorted cursor comes after everything it keeps.
\<close>

lemma mset_sort_cursor: "mset (sort_cursor key direction cur) = mset cur"
  by (simp add: sort_cursor_def)

lemma mset_limit_cursor: "mset (limit_cursor n cur) \<subseteq># mset cur"
proof -
  have "mset (take k cur) \<subseteq># mset cur" for k
    by (metis append_take_drop_id mset_append mset_subset_eq_add_left)
  then show ?thesis
    by (simp add: limit_cursor_def)
qed

lemma limit_cursor_rest:
  "sorted_wrt P cur \<Longrightarrow> a \<in> set (limit_cursor n cur) \<Longrightarrow>
   b \<in># mset cur - mset (limit_cursor n cur) \<Longrightarrow> P a b"
proof (cases "n = 0")
  case True
  assume "b \<in># mset cur - mset (limit_cursor n cur)"
  with True show ?thesis by (simp add: limit_cursor_def)
next
  case False
  assume s: "sorted_wrt P cur" and a: "a \<in> set (limit_cursor n cur)"
    and b: "b \<in># mset cur - mset (limit_cursor n cur)"
  define k where "k = nat \<bar>n\<bar>"
  have "mset cur = mset (take k cur) + mset (drop k cur)"
    by (metis append_take_drop_id mset_append)
  then have "mset cur - mset (take k cur) = mset (drop k cur)"
    by simp
  with b False have b': "b \<in> set (drop k cur)"
    by (simp add: limit_cursor_def k_def)
  from a False have a': "a \<in> set (take k cur)"
    by (simp add: limit_cursor_def k_def)
  from s have "sorted_wrt P (take k cur @ drop k cur)"
    by simp
  then show ?thesis
    using a' b' unfolding sorted_wrt_append by blast
qed

section \<open>Serialization\<close>

text \<open>
  C7. A null document and an empty document serialize to themselves. For every non-empty
  document the result holds, under \<open>_id\<close>, the string rendering of the value the document
  had there (of \<^verbatim>\<open>None\<close> when it had none); every other key keeps its value and no
  other key appears.
\<close>

theorem serialize_doc_frame:
  "serialize_doc None = None \<and>
   serialize_doc (Some []) = Some [] \<and>
   (d \<noteq> [] \<longrightarrow>
     (\<exists>d'. serialize_doc (Some d) = Some d' \<and>
        map_of d' ''_id'' = Some (VStr (py_str (dict_get d ''_id''))) \<and>
        (\<forall>k. k \<noteq> ''_id'' \<longrightarrow> map_of d' k = map_of d k) \<and>
        fst ` set d' = insert ''_id'' (fst ` set d)))"
  by (simp add: serialize_doc_def map_of_update_id map_of_update_other keys_update)

theorem serialize_doc_frame_witness:
  "serialize_doc (Some [(''username'', VStr ''Ann''), (''_id'', VOid 10)]) =
     Some [(''username'', VStr ''Ann''), (''_id'', VStr ''00000000000000000000000a'')] \<and>
   serialize_doc (Some [(''username'', VStr ''Ann'')]) =
     Some [(''username'', VStr ''Ann''), (''_id'', VStr ''None'')] \<and>
   (\<exists>d'. serialize_doc (Some [(''username'', VStr ''Ann''), (''_id'', VOid 10)]) = Some d' \<and>
      map_of d' ''_id'' = Some (VStr ''00000000000000000000000a'') \<and>
      map_of d' ''username'' = Some (VStr ''Ann''))"
  using serialize_doc_frame [of "[(''username'', VStr ''Ann''), (''_id'', VOid 10)]"]
  by (simp add: serialize_doc_def dict_get_def hex_of_numeral hex_digit_def)

section \<open>Routes without a store\<close>

text \<open>
  C8. With the store handle absent, each of the seven data-touching handlers raises
  \<^verbatim>\<open>HTTPException(500, "Database not configured")\<close> whatever its arguments are, FastAPI
  answers 500, and the handle stays absent: the handler has touched no collection.
\<close>

theorem store_absent_500:
  "list_games None category = Inl (HTTPException 500 ''Database not configured'') \<and>
   create_game None game new_id = (Inl (HTTPException 500 ''Database not configured''), None) \<and>
   create_user None payload new_id = (Inl (HTTPException 500 ''Database not configured''), None) \<and>
   get_user None user_id = Inl (HTTPException 500 ''Database not configured'') \<and>
   get_leaderboard None game_id limit = Inl (HTTPException 500 ''Database not configured'') \<and>
   submit_score None game_id score_payload new_id =
     (Inl (HTTPException 500 ''Database not configured''), None) \<and>
   seed_games None new_ids = (Inl (HTTPException 500 ''Database not configured''), None) \<and>
   status_code (Inl (HTTPException 500 ''Database not configured'') :: exn + unit) = 500"
  by (simp add: list_games_def create_game_def get_user_def get_leaderboard_def seed_games_def
      not_configured_def)

section \<open>Games\<close>

text \<open>
  C10. An empty \<open>category\<close> query parameter is falsy, so the filter is the empty one, as
  for an absent parameter: both requests give the same answer, and with a store it is
  every game, serialized.
\<close>

theorem list_games_empty_category:
  "list_games db (Some []) = list_games db None \<and>
   list_games (Some d) (Some []) = Inr (map (\<lambda>x. serialize_doc (Some x)) (d ''game''))"
  by (cases db) (simp_all add: list_games_def get_documents_def find_cursor_def matches_def)

text \<open>
  C6. With a store whose \<open>game\<close> collection is empty, \<^verbatim>\<open>seed_games\<close> inserts the four
  samples in order, each under its generated identifier, and returns the four identifiers
  as strings. With a non-empty collection it changes nothing and returns the
  already-seeded message. Hence two calls in a row on an empty collection leave four game
  documents, the second call answering with the message.
\<close>

theorem seed_games_idempotent:
  "(d ''game'' = [] \<longrightarrow>
      seed_games (Some d) new_ids =
        (Inr (Inserted [py_str (VOid (new_ids 0)), py_str (VOid (new_ids 1)),
                        py_str (VOid (new_ids 2)), py_str (VOid (new_ids 3))]),
         Some (d(''game'' :=
                 [(''_id'', VOid (new_ids 0)) # samples ! 0,
                  (''_id'', VOid (new_ids 1)) # samples ! 1,
                  (''_id'', VOid (new_ids 2)) # samples ! 2,
                  (''_id'', VOid (new_ids 3)) # samples ! 3])))) \<and>
   (d ''game'' \<noteq> [] \<longrightarrow>
      seed_games (Some d) new_ids =
        (Inr (Message [(''status'', VStr ''ok''), (''message'', VStr ''Games already seeded'')]),
         Some d)) \<and>
   (d ''game'' = [] \<longrightarrow>
      (\<exists>r1 d1. seed_games (Some d) new_ids = (Inr (Inserted r1), Some d1) \<and>
         seed_games (Some d1) more_ids =
           (Inr (Message [(''status'', VStr ''ok''),
                          (''message'', VStr ''Games already seeded'')]), Some d1) \<and>
         length r1 = 4 \<and> length (d1 ''game'') = 4))"
proof -
  have cnt: "count_documents c [] = length c" for c
    by (simp add: count_documents_def find_cursor_def matches_def)
  have fresh: "d ''game'' = [] \<longrightarrow>
      seed_games (Some d) new_ids =
        (Inr (Inserted [py_str (VOid (new_ids 0)), py_str (VOid (new_ids 1)),
                        py_str (VOid (new_ids 2)), py_str (VOid (new_ids 3))]),
         Some (d(''game'' :=
                 [(''_id'', VOid (new_ids 0)) # samples ! 0,
                  (''_id'', VOid (new_ids 1)) # samples ! 1,
                  (''_id'', VOid (new_ids 2)) # samples ! 2,
                  (''_id'', VOid (new_ids 3)) # samples ! 3])))"
    by (simp add: seed_games_def cnt samples_def create_document_def numeral_2_eq_2
        numeral_3_eq_3 del: py_str.simps)
  have seeded: "seed_games (Some c) ids =
        (Inr (Message [(''status'', VStr ''ok''), (''message'', VStr ''Games already seeded'')]),
         Some c)" if "c ''game'' \<noteq> []" for c ids
    using that by (simp add: seed_games_def cnt)
  show ?thesis
    using fresh seeded [of d new_ids]
      seeded [of "d(''game'' :=
                 [(''_id'', VOid (new_ids 0)) # samples ! 0,
                  (''_id'', VOid (new_ids 1)) # samples ! 1,
                  (''_id'', VOid (new_ids 2)) # samples ! 2,
                  (''_id'', VOid (new_ids 3)) # samples ! 3])" more_ids]
    by simp
qed

theorem seed_games_idempotent_witness:
  "\<exists>d1. seed_games (Some (\<lambda>c. [])) (\<lambda>i. of_nat i + 16) =
          (Inr (Inserted [''000000000000000000000010'', ''000000000000000000000011'',
                          ''000000000000000000000012'', ''000000000000000000000013'']),
           Some d1) \<and>
        seed_games (Some d1) (\<lambda>i. of_nat i + 32) =
          (Inr (Message [(''status'', VStr ''ok''), (''message'', VStr ''Games already seeded'')]),
           Some d1) \<and>
        map (\<lambda>g. dict_get g ''title'') (d1 ''game'') =
          [VStr ''Neon Blocks'', VStr ''Cyber Runner'', VStr ''Pulse Shooter'', VStr ''ABC Quest'']"
  using seed_games_idempotent [of "\<lambda>c. []" "\<lambda>i. of_nat i + 16" "\<lambda>i. of_nat i + 32"]
  by (auto simp: samples_def hex_of_numeral hex_digit_def dict_get_def)

section \<open>Users\<close>

text \<open>
  With a store, every string that is not a valid identifier makes \<^verbatim>\<open>get_user\<close> raise
  the validator's \<^verbatim>\<open>ValueError\<close>, which FastAPI answers with 500.
\<close>

lemma get_user_invalid_id:
  "\<not> ObjectId_is_valid user_id \<Longrightarrow>
   get_user (Some d) user_id = Inl (ValueError ''Invalid ObjectId'') \<and>
   status_code (get_user (Some d) user_id) = 500"
  by (simp add: get_user_def)

text \<open>
  A string of 24 characters with white space after 22 digits is a valid identifier of
  eleven bytes: the validator passes it, no stored user has it, and the answer is 404.
\<close>

lemma get_user_white_space:
  "ObjectId_is_valid ''0123456789abcdef012345  '' \<and>
   get_user (Some (\<lambda>c. [])) ''0123456789abcdef012345  '' =
     Inl (HTTPException 404 ''User not found'')"
  by (simp add: get_user_def ObjectId_is_valid_def ObjectId_def Py_ISSPACE_def hex_val_def
      find_one_def truthy_def)

text \<open>
  C1. The claim is that a malformed identifier is answered with 400. At the spec's own
  example \<open>not-an-id\<close>, with a store, \<^verbatim>\<open>PyObjectId.validate\<close> raises a
  \<^verbatim>\<open>ValueError\<close> that \<^verbatim>\<open>get_user\<close> does not catch, and FastAPI answers 500.
\<close>

theorem get_user_malformed_id:
  "get_user (Some d) ''not-an-id'' = Inl (ValueError ''Invalid ObjectId'') \<and>
   status_code (get_user (Some d) ''not-an-id'') = 500"
  by (simp add: get_user_def ObjectId_is_valid_def ObjectId_def)

text \<open>\<^verbatim>\<open>create_user\<close> never answers 422, whatever the username and the avatar are.\<close>

lemma create_user_never_422:
  "status_code (fst (create_user db payload new_id)) \<noteq> 422"
proof (cases db)
  case None
  then show ?thesis by (simp add: not_configured_def)
next
  case (Some d)
  obtain username avatar_url where p: "payload = CreateUserRequest username avatar_url"
    by (cases payload)
  show ?thesis
    unfolding Some p
    by (simp add: Let_def create_document_def ObjectId_py_str del: py_str.simps)
qed

text \<open>
  C2. The claim is that a body whose username is shorter than 2 characters is refused.
  \<^verbatim>\<open>create_user\<close> takes a \<^verbatim>\<open>CreateUserRequest\<close>, which carries none of the
  constraints of \<^verbatim>\<open>User\<close>: on an empty store the one-character username \<open>a\<close> is
  inserted and answered with 200.
\<close>

theorem create_user_short_username:
  "create_user (Some (\<lambda>c. [])) (CreateUserRequest ''a'' None) 1 =
     (Inr (Some [(''_id'', VStr ''000000000000000000000001''), (''username'', VStr ''a''),
                 (''avatar_url'', VNone)]),
      Some ((\<lambda>c. [])(''user'' :=
              [[(''_id'', VOid 1), (''username'', VStr ''a''), (''avatar_url'', VNone)]]))) \<and>
   status_code (fst (create_user (Some (\<lambda>c. [])) (CreateUserRequest ''a'' None) 1)) = 200 \<and>
   \<not> User_username_ok ''a''"
proof -
  have oid: "ObjectId ''000000000000000000000001'' = Inr (VOid 1)"
    by (simp add: ObjectId_def hex_val_def Py_ISSPACE_def nat_of_bytes_def)
  show ?thesis
    by (simp add: find_one_def truthy_def create_document_def opt_str_def oid
        matches_def dict_get_def serialize_doc_def User_username_ok_def hex_of_numeral
        hex_digit_def)
qed

text \<open>
  C5. With a store, two calls of \<^verbatim>\<open>create_user\<close> in a row with the same username
  (whatever the avatars and the generated identifiers are) both return a user document,
  with the same string under \<open>_id\<close>, and the second call leaves the store as the first
  left it. When no user had the name, the store then holds exactly one user of that name;
  when one had, the store is unchanged.
\<close>

theorem create_user_idempotent:
  "\<exists>doc1 doc2 d1 s.
     create_user (Some d) (CreateUserRequest username avatar1) id1 = (Inr (Some doc1), Some d1) \<and>
     create_user (Some d1) (CreateUserRequest username avatar2) id2 = (Inr (Some doc2), Some d1) \<and>
     map_of doc1 ''_id'' = Some (VStr s) \<and> map_of doc2 ''_id'' = Some (VStr s) \<and>
     (find_one (d ''user'') [(''username'', VStr username)] = None \<longrightarrow>
        count_documents (d1 ''user'') [(''username'', VStr username)] = 1) \<and>
     (find_one (d ''user'') [(''username'', VStr username)] \<noteq> None \<longrightarrow> d1 = d)"
proof (cases "find_one (d ''user'') [(''username'', VStr username)]")
  case (Some e)
  then have ne: "e \<noteq> []"
    using find_one_username_nonempty by blast
  from serialize_doc_id [OF ne] obtain doc where
    doc: "serialize_doc (Some e) = Some doc"
      "map_of doc ''_id'' = Some (VStr (py_str (dict_get e ''_id'')))"
    by blast
  have "create_user (Some d) (CreateUserRequest username a) i = (Inr (Some doc), Some d)" for a i
    using Some ne doc(1) by (simp add: truthy_def)
  with doc(2) Some show ?thesis
    by auto
next
  case None
  define new where
    "new = [(''_id'', VOid id1), (''username'', VStr username), (''avatar_url'', opt_str avatar1)]"
  define d1 where "d1 = d(''user'' := d ''user'' @ [new])"
  have cd: "create_document ''user''
              (CreateUserRequest_model_dump (CreateUserRequest username avatar1)) id1 d =
            (py_str (VOid id1), d1)"
    by (simp add: create_document_def d1_def new_def)
  have new_user: "matches [(''username'', VStr username)] new"
    by (simp add: matches_single dict_get_def new_def)
  have new_id: "matches [(''_id'', VOid id1)] new"
    by (simp add: matches_single dict_get_def new_def)
  have "find_one (d1 ''user'') [(''_id'', VOid id1)] \<noteq> None"
    using new_id by (simp add: d1_def find_one_def find_append split: option.split)
  then obtain x where x: "find_one (d1 ''user'') [(''_id'', VOid id1)] = Some x"
    by blast
  then have x': "x \<noteq> []" "dict_get x ''_id'' = VOid id1"
    using find_one_id_nonempty by blast+
  from serialize_doc_id [OF x'(1)] x'(2) obtain doc1 where
    doc1: "serialize_doc (Some x) = Some doc1"
      "map_of doc1 ''_id'' = Some (VStr (py_str (VOid id1)))"
    by auto
  have first: "create_user (Some d) (CreateUserRequest username avatar1) id1 =
                 (Inr (Some doc1), Some d1)"
    using None cd x doc1(1) by (simp add: truthy_def ObjectId_py_str del: py_str.simps)
  have found: "find_one (d1 ''user'') [(''username'', VStr username)] = Some new"
    using None new_user by (simp add: d1_def find_one_def find_append)
  have new_ne: "new \<noteq> []" "dict_get new ''_id'' = VOid id1"
    by (simp_all add: new_def dict_get_def)
  from serialize_doc_id [OF new_ne(1)] new_ne(2) obtain doc2 where
    doc2: "serialize_doc (Some new) = Some doc2"
      "map_of doc2 ''_id'' = Some (VStr (py_str (VOid id1)))"
    by auto
  have second: "create_user (Some d1) (CreateUserRequest username avatar2) id2 =
                  (Inr (Some doc2), Some d1)"
    using found new_ne(1) doc2(1) by (simp add: truthy_def)
  have "filter (matches [(''username'', VStr username)]) (d ''user'') = []"
    using None by (simp add: find_one_def find_None_iff filter_empty_conv)
  then have cnt: "count_documents (d1 ''user'') [(''username'', VStr username)] = 1"
    using new_user by (simp add: count_documents_def find_cursor_def d1_def)
  from first second doc1(2) doc2(2) cnt None show ?thesis
    by auto
qed

theorem create_user_idempotent_witness:
  "create_user (Some (\<lambda>c. [])) (CreateUserRequest ''Ann'' None) 1 =
     (Inr (Some [(''_id'', VStr ''000000000000000000000001''), (''username'', VStr ''Ann''),
                 (''avatar_url'', VNone)]), Some ann_store) \<and>
   create_user (Some ann_store) (CreateUserRequest ''Ann'' (Some ''http://x.org/a.png'')) 2 =
     (Inr (Some [(''_id'', VStr ''000000000000000000000001''), (''username'', VStr ''Ann''),
                 (''avatar_url'', VNone)]), Some ann_store) \<and>
   count_documents (ann_store ''user'') [(''username'', VStr ''Ann'')] = 1"
proof -
  have oid: "ObjectId ''000000000000000000000001'' = Inr (VOid 1)"
    by (simp add: ObjectId_def hex_val_def Py_ISSPACE_def nat_of_bytes_def)
  have first: "create_user (Some (\<lambda>c. [])) (CreateUserRequest ''Ann'' None) 1 =
     (Inr (Some [(''_id'', VStr ''000000000000000000000001''), (''username'', VStr ''Ann''),
                 (''avatar_url'', VNone)]), Some ann_store)"
    by (simp add: find_one_def truthy_def create_document_def opt_str_def oid ann_store_def
        matches_def dict_get_def serialize_doc_def hex_of_numeral hex_digit_def)
  have second:
    "create_user (Some ann_store) (CreateUserRequest ''Ann'' (Some ''http://x.org/a.png'')) 2 =
     (Inr (Some [(''_id'', VStr ''000000000000000000000001''), (''username'', VStr ''Ann''),
                 (''avatar_url'', VNone)]), Some ann_store)"
    by (simp add: find_one_def truthy_def ann_store_def
        matches_def dict_get_def serialize_doc_def hex_of_numeral hex_digit_def)
  have none: "find_one ((\<lambda>c. []) ''user'') [(''username'', VStr ''Ann'')] = None"
    by (simp add: find_one_def)
  from create_user_idempotent
    [of "\<lambda>c. []" "''Ann''" None 1 "Some ''http://x.org/a.png''" 2] first none
  have "count_documents (ann_store ''user'') [(''username'', VStr ''Ann'')] = 1"
    by auto
  with first second show ?thesis
    by simp
qed

section \<open>Leaderboard\<close>

lemma board_limit_0:
  "get_leaderboard (Some board) ''g1'' 0 =
     Inr [Some [(''_id'', VStr ''000000000000000000000003''), (''game_id'', VStr ''g1''),
                (''user_id'', VStr ''u2''), (''username'', VStr ''Bob''), (''score'', VInt 42)],
          Some [(''_id'', VStr ''000000000000000000000001''), (''game_id'', VStr ''g1''),
                (''user_id'', VStr ''u1''), (''username'', VStr ''Ann''), (''score'', VInt 7)]]"
  by (simp add: get_leaderboard_def board_def find_cursor_def matches_def dict_get_def
      sort_cursor_def limit_cursor_def serialize_doc_def hex_of_numeral hex_digit_def)

lemma board_limit_1:
  "get_leaderboard (Some board) ''g1'' 1 =
     Inr [Some [(''_id'', VStr ''000000000000000000000003''), (''game_id'', VStr ''g1''),
                (''user_id'', VStr ''u2''), (''username'', VStr ''Bob''), (''score'', VInt 42)]]"
  by (simp add: get_leaderboard_def board_def find_cursor_def matches_def dict_get_def
      sort_cursor_def limit_cursor_def serialize_doc_def hex_of_numeral hex_digit_def)

text \<open>
  C3, as stated, fails at limit 0: pymongo takes a limit of 0 as no limit, so the request
  \<^verbatim>\<open>GET /api/leaderboard/g1?limit=0\<close> on the example leaderboard returns both entries
  of \<open>g1\<close>, which is more than 0.
\<close>

theorem get_leaderboard_limit_0_counterexample:
  "get_leaderboard (Some board) ''g1'' 0 =
     Inr [Some [(''_id'', VStr ''000000000000000000000003''), (''game_id'', VStr ''g1''),
                (''user_id'', VStr ''u2''), (''username'', VStr ''Bob''), (''score'', VInt 42)],
          Some [(''_id'', VStr ''000000000000000000000001''), (''game_id'', VStr ''g1''),
                (''user_id'', VStr ''u1''), (''username'', VStr ''Ann''), (''score'', VInt 7)]] \<and>
   \<not> (\<forall>d game_id limit r.
         0 \<le> limit \<longrightarrow> get_leaderboard (Some d) game_id limit = Inr r \<longrightarrow>
         length r \<le> nat limit)"
proof -
  have "\<not> (\<forall>d game_id limit r.
         0 \<le> limit \<longrightarrow> get_leaderboard (Some d) game_id limit = Inr r \<longrightarrow>
         length r \<le> nat limit)"
  proof
    assume a: "\<forall>d game_id limit r.
         0 \<le> limit \<longrightarrow> get_leaderboard (Some d) game_id limit = Inr r \<longrightarrow>
         length r \<le> nat limit"
    show False
      using a [rule_format, OF _ board_limit_0] by simp
  qed
  with board_limit_0 show ?thesis by blast
qed

text \<open>
  C3, amended. With a store, for every game id and every limit the request returns the
  serialization of a list \<open>entries\<close> of stored documents of the game: as a multiset,
  \<open>entries\<close> is part of the stored entries of the game, each stored entry taken at most
  as often as it is stored. The answer's documents all have \<open>game_id\<close> equal to the
  requested one and are in descending order of \<open>score\<close>. For a limit of 1 or more the
  answer has at most that many entries (exactly as many as the limit or as the game has,
  whichever is less), and every stored entry it leaves out has a score that is at most
  that of every entry it returns. For the limit 0 the answer is every stored entry of the
  game, each exactly as often as it is stored.
\<close>

theorem get_leaderboard_limit:
  "\<exists>entries es.
     get_leaderboard (Some d) game_id limit = Inr (map Some es) \<and>
     map Some es = map (\<lambda>e. serialize_doc (Some e)) entries \<and>
     mset entries \<subseteq># mset (find_cursor (d ''leaderboardentry'') [(''game_id'', VStr game_id)]) \<and>
     (limit = 0 \<longrightarrow>
        mset entries = mset (find_cursor (d ''leaderboardentry'') [(''game_id'', VStr game_id)])) \<and>
     (1 \<le> limit \<longrightarrow>
        length es =
          min (nat limit)
            (count_documents (d ''leaderboardentry'') [(''game_id'', VStr game_id)])) \<and>
     (1 \<le> limit \<longrightarrow> length es \<le> nat limit) \<and>
     (limit = 0 \<longrightarrow>
        length es = count_documents (d ''leaderboardentry'') [(''game_id'', VStr game_id)]) \<and>
     (\<forall>a \<in> set entries.
        \<forall>b \<in># mset (find_cursor (d ''leaderboardentry'') [(''game_id'', VStr game_id)]) -
                mset entries.
          bson_key (dict_get b ''score'') \<le> bson_key (dict_get a ''score'')) \<and>
     list_all (\<lambda>e. dict_get e ''game_id'' = VStr game_id) es \<and>
     sorted_wrt (\<lambda>a b. bson_key (dict_get b ''score'') \<le> bson_key (dict_get a ''score'')) es"
proof -
  define found where
    "found = find_cursor (d ''leaderboardentry'') [(''game_id'', VStr game_id)]"
  define sorted_found where "sorted_found = sort_cursor ''score'' (- 1) found"
  define entries where "entries = limit_cursor limit sorted_found"
  define ser where
    "ser = (\<lambda>e. AList.update ''_id'' (VStr (py_str (dict_get e ''_id''))) e)"
  have found_game: "dict_get e ''game_id'' = VStr game_id" if "e \<in> set found" for e
    using that by (simp add: found_def find_cursor_def matches_single)
  have sub: "set entries \<subseteq> set found"
    using set_limit_cursor [of limit sorted_found]
    by (simp add: entries_def sorted_found_def set_sort_cursor)
  have game: "dict_get e ''game_id'' = VStr game_id" if "e \<in> set entries" for e
    using that sub found_game by blast
  have ser: "map (\<lambda>e. serialize_doc (Some e)) entries = map Some (map ser entries)"
  proof -
    have "serialize_doc (Some e) = Some (ser e)" if "e \<in> set entries" for e
      using dict_get_nonempty [OF game [OF that]] by (simp add: ser_def serialize_doc_nonempty)
    then show ?thesis by simp
  qed
  then have res: "get_leaderboard (Some d) game_id limit = Inr (map Some (map ser entries))"
    by (simp add: get_leaderboard_def entries_def sorted_found_def found_def)
  have msub: "mset entries \<subseteq># mset found"
    using mset_limit_cursor [of limit sorted_found]
    by (simp add: entries_def sorted_found_def mset_sort_cursor)
  have mall: "limit = 0 \<longrightarrow> mset entries = mset found"
    by (simp add: entries_def sorted_found_def limit_cursor_def mset_sort_cursor)
  have lenmin: "1 \<le> limit \<longrightarrow>
      length (map ser entries) =
        min (nat limit)
          (count_documents (d ''leaderboardentry'') [(''game_id'', VStr game_id)])"
    by (simp add: entries_def sorted_found_def limit_cursor_def length_sort_cursor found_def
        count_documents_def min.commute)
  have len1: "1 \<le> limit \<longrightarrow> length (map ser entries) \<le> nat limit"
    by (simp add: entries_def limit_cursor_def)
  have len0: "limit = 0 \<longrightarrow>
      length (map ser entries) =
        count_documents (d ''leaderboardentry'') [(''game_id'', VStr game_id)]"
    by (simp add: entries_def sorted_found_def limit_cursor_def length_sort_cursor found_def
        count_documents_def)
  have sf: "sorted_wrt
      (\<lambda>a b. bson_key (dict_get b ''score'') \<le> bson_key (dict_get a ''score'')) sorted_found"
    unfolding sorted_found_def by (rule sort_cursor_desc)
  have rest: "\<forall>a \<in> set entries. \<forall>b \<in># mset found - mset entries.
      bson_key (dict_get b ''score'') \<le> bson_key (dict_get a ''score'')"
  proof (intro ballI)
    fix a b
    assume a: "a \<in> set entries" and b: "b \<in># mset found - mset entries"
    from b have "b \<in># mset sorted_found - mset (limit_cursor limit sorted_found)"
      by (simp add: entries_def sorted_found_def mset_sort_cursor)
    with limit_cursor_rest [OF sf] a
    show "bson_key (dict_get b ''score'') \<le> bson_key (dict_get a ''score'')"
      unfolding entries_def by blast
  qed
  have all_game: "list_all (\<lambda>e. dict_get e ''game_id'' = VStr game_id) (map ser entries)"
    using game by (simp add: list_all_iff ser_def dict_get_update_other)
  have "sorted_wrt (\<lambda>a b. bson_key (dict_get b ''score'') \<le> bson_key (dict_get a ''score''))
          entries"
    unfolding entries_def by (intro sorted_wrt_limit_cursor sf)
  then have srt: "sorted_wrt
      (\<lambda>a b. bson_key (dict_get b ''score'') \<le> bson_key (dict_get a ''score''))
      (map ser entries)"
    by (simp add: sorted_wrt_map ser_def dict_get_update_other)
  from res ser [symmetric] msub mall lenmin len1 len0 rest all_game srt show ?thesis
    unfolding found_def [symmetric] by blast
qed

theorem get_leaderboard_limit_witness:
  "get_leaderboard (Some board) ''g1'' 1 =
     Inr [Some [(''_id'', VStr ''000000000000000000000003''), (''game_id'', VStr ''g1''),
                (''user_id'', VStr ''u2''), (''username'', VStr ''Bob''), (''score'', VInt 42)]] \<and>
   (\<exists>entries es. get_leaderboard (Some board) ''g1'' 1 = Inr (map Some es) \<and>
      map Some es = map (\<lambda>e. serialize_doc (Some e)) entries \<and> length es = 1 \<and>
      list_all (\<lambda>e. dict_get e ''game_id'' = VStr ''g1'') es) \<and>
   (\<exists>entries es. get_leaderboard (Some board) ''g1'' 0 = Inr (map Some es) \<and>
      map Some es = map (\<lambda>e. serialize_doc (Some e)) entries \<and>
      mset entries =
        {#[(''_id'', VOid 1), (''game_id'', VStr ''g1''), (''user_id'', VStr ''u1''),
           (''username'', VStr ''Ann''), (''score'', VInt 7)],
          [(''_id'', VOid 3), (''game_id'', VStr ''g1''), (''user_id'', VStr ''u2''),
           (''username'', VStr ''Bob''), (''score'', VInt 42)]#} \<and>
      length es = 2)"
proof -
  have f: "find_cursor (board ''leaderboardentry'') [(''game_id'', VStr ''g1'')] =
      [[(''_id'', VOid 1), (''game_id'', VStr ''g1''), (''user_id'', VStr ''u1''),
        (''username'', VStr ''Ann''), (''score'', VInt 7)],
       [(''_id'', VOid 3), (''game_id'', VStr ''g1''), (''user_id'', VStr ''u2''),
        (''username'', VStr ''Bob''), (''score'', VInt 42)]]"
    by (simp add: board_def find_cursor_def matches_def dict_get_def)
  have c: "count_documents (board ''leaderboardentry'') [(''game_id'', VStr ''g1'')] = 2"
    by (simp add: count_documents_def f)
  from get_leaderboard_limit [of board "''g1''" 1] c
  have one: "\<exists>entries es. get_leaderboard (Some board) ''g1'' 1 = Inr (map Some es) \<and>
      map Some es = map (\<lambda>e. serialize_doc (Some e)) entries \<and> length es = 1 \<and>
      list_all (\<lambda>e. dict_get e ''game_id'' = VStr ''g1'') es"
    by auto
  from get_leaderboard_limit [of board "''g1''" 0] c f
  have zero: "\<exists>entries es. get_leaderboard (Some board) ''g1'' 0 = Inr (map Some es) \<and>
      map Some es = map (\<lambda>e. serialize_doc (Some e)) entries \<and>
      mset entries =
        {#[(''_id'', VOid 1), (''game_id'', VStr ''g1''), (''user_id'', VStr ''u1''),
           (''username'', VStr ''Ann''), (''score'', VInt 7)],
          [(''_id'', VOid 3), (''game_id'', VStr ''g1''), (''user_id'', VStr ''u2''),
           (''username'', VStr ''Bob''), (''score'', VInt 42)]#} \<and>
      length es = 2"
    by (auto simp: add_mset_commute)
  from board_limit_1 one zero show ?thesis by blast
qed

text \<open>
  C4. With a store, a negative score is answered with
  \<^verbatim>\<open>HTTPException(400, "Score must be non-negative")\<close> and the store is left as it
  was. A score of zero or more appends exactly one document to \<open>leaderboardentry\<close>, made
  of the generated identifier and the fields \<open>game_id\<close>, \<open>user_id\<close>, \<open>username\<close> and
  \<open>score\<close>, and the answer is that identifier as a string.
\<close>

theorem submit_score_guard:
  "(score < 0 \<longrightarrow>
      submit_score (Some d) game_id (SubmitScoreRequest user_id username score) new_id =
        (Inl (HTTPException 400 ''Score must be non-negative''), Some d)) \<and>
   (0 \<le> score \<longrightarrow>
      submit_score (Some d) game_id (SubmitScoreRequest user_id username score) new_id =
        (Inr [(''_id'', VStr (py_str (VOid new_id)))],
         Some (d(''leaderboardentry'' :=
                 d ''leaderboardentry'' @
                 [[(''_id'', VOid new_id), (''game_id'', VStr game_id),
                   (''user_id'', VStr user_id), (''username'', VStr username),
                   (''score'', VInt score)]]))))"
  by (simp add: create_document_def)

theorem submit_score_guard_witness:
  "submit_score (Some (\<lambda>c. [])) ''g1'' (SubmitScoreRequest ''u1'' ''Ann'' (- 1)) 7 =
     (Inl (HTTPException 400 ''Score must be non-negative''), Some (\<lambda>c. [])) \<and>
   submit_score (Some (\<lambda>c. [])) ''g1'' (SubmitScoreRequest ''u1'' ''Ann'' 42) 7 =
     (Inr [(''_id'', VStr ''000000000000000000000007'')],
      Some ((\<lambda>c. [])(''leaderboardentry'' :=
              [[(''_id'', VOid 7), (''game_id'', VStr ''g1''), (''user_id'', VStr ''u1''),
                (''username'', VStr ''Ann''), (''score'', VInt 42)]])))"
  using submit_score_guard [of "- 1" "\<lambda>c. []" "''g1''" "''u1''" "''Ann''" 7]
    submit_score_guard [of 42 "\<lambda>c. []" "''g1''" "''u1''" "''Ann''" 7]
  by (simp add: hex_of_numeral hex_digit_def)

section \<open>Diagnostics\<close>

text \<open>
  C9. \<^verbatim>\<open>test_database\<close> returns a response for every handle, environment and outcome
  of the probe, so the answer is always 200. When the probe raises, the response's
  \<open>database\<close> field is the fixed prefix followed by the first 50 characters of the
  exception's text.
\<close>

theorem test_database_always_200:
  "status_code (test_database db env_url env_name listing) = 200 \<and>
   (\<exists>r. test_database (Some d) env_url env_name (Inl msg) = Inr r \<and>
        database r = warning_sign @ ''  Connected but Error: '' @ take 50 msg \<and>
        length (database r) \<le> length (warning_sign @ ''  Connected but Error: '') + 50)"
  by (cases db; cases listing) (simp_all add: test_database_def Let_def)

end
